theory Spec2Isabelle
  imports Complex_Main "HOL-Library.Multiset"
begin

section \<open>Python and numpy primitives used by the notebook\<close>

text \<open>
  The notebook \<^verbatim>\<open>notebooks/NSGA-II.ipynb\<close> defines one class, \<^verbatim>\<open>MOTSP\<close>, with the methods
  \<^verbatim>\<open>__init__\<close>, \<^verbatim>\<open>total_distance\<close> and \<^verbatim>\<open>_evaluate\<close>. Everything else in it is a call into
  the libraries pymoo, numpy and matplotlib. The class is embedded below. Python integers
  are \<^typ>\<open>int\<close>, one-dimensional arrays are lists and two-dimensional arrays are lists of
  rows. A finite \<^verbatim>\<open>np.float64\<close> value is the real number it stands for, of type \<^typ>\<open>real\<close>;
  the arithmetic on these values is not the arithmetic of the reals, see \<open>addition\<close> below.
  The exceptions the methods can raise are values.
\<close>

datatype error = IndexError | ValueError

text \<open>
  Indexing one axis of length \<open>n\<close> with a Python integer: \<open>0 .. n-1\<close> are read as they are,
  \<open>-n .. -1\<close> count from the end, anything else raises \<^verbatim>\<open>IndexError\<close>.
\<close>

definition normalize_index :: "nat \<Rightarrow> int \<Rightarrow> error + nat" where
  "normalize_index n i =
     (if 0 \<le> i \<and> i < int n then Inr (nat i)
      else if - int n \<le> i \<and> i < 0 then Inr (nat (i + int n))
      else Inl IndexError)"

text \<open>\<^verbatim>\<open>xs[i]\<close> on a Python list.\<close>

definition list_getitem :: "'a list \<Rightarrow> int \<Rightarrow> error + 'a" where
  "list_getitem xs i =
     (case normalize_index (length xs) i of
        Inl e \<Rightarrow> Inl e
      | Inr k \<Rightarrow> Inr (xs ! k))"

type_synonym matrix = "real list list"

definition ncols :: "matrix \<Rightarrow> nat" where
  "ncols m = (case m of [] \<Rightarrow> 0 | r # _ \<Rightarrow> length r)"

text \<open>\<^verbatim>\<open>m[a, b]\<close> on a two-dimensional array of shape \<open>(length m, ncols m)\<close>.\<close>

definition array2_getitem :: "matrix \<Rightarrow> int \<Rightarrow> int \<Rightarrow> error + real" where
  "array2_getitem m a b =
     (case normalize_index (length m) a of
        Inl e \<Rightarrow> Inl e
      | Inr i \<Rightarrow>
          (case normalize_index (ncols m) b of
             Inl e \<Rightarrow> Inl e
           | Inr j \<Rightarrow> Inr (m ! i ! j)))"

text \<open>
  \<^verbatim>\<open>np.tril(m, k)\<close>: a copy of \<open>m\<close> with the entries above the \<open>k\<close>-th diagonal
  (those with \<open>j > i + k\<close>) set to zero.
\<close>

definition tril :: "matrix \<Rightarrow> int \<Rightarrow> matrix" where
  "tril m k =
     map (\<lambda>i. map (\<lambda>j. if int j \<le> int i + k then m ! i ! j else 0) [0..<ncols m])
       [0..<length m]"

text \<open>\<^verbatim>\<open>m.T\<close>.\<close>

definition transpose_T :: "matrix \<Rightarrow> matrix" where
  "transpose_T m = map (\<lambda>j. map (\<lambda>i. m ! i ! j) [0..<length m]) [0..<ncols m]"

text \<open>
  \<^verbatim>\<open>a + b\<close> on two arrays of one shape (the only use in the notebook adds two
  \<open>n \<times> n\<close> arrays derived from the same array). In that use one operand of every
  entry-wise sum is \<open>0.0\<close>, and adding \<open>0.0\<close> to a \<^verbatim>\<open>np.float64\<close> value is exact.
\<close>

definition matrix_add :: "matrix \<Rightarrow> matrix \<Rightarrow> matrix" where
  "matrix_add a b = map2 (map2 (+)) a b"

text \<open>
  \<^verbatim>\<open>d[np.diag_indices(n)] = 0\<close>: the entries \<open>(i, i)\<close> with \<open>i < n\<close> become zero.
\<close>

definition zero_diagonal :: "nat \<Rightarrow> matrix \<Rightarrow> matrix" where
  "zero_diagonal n d =
     map (\<lambda>i. if i < n then (d ! i)[i := 0] else d ! i) [0..<length d]"

text \<open>
  \<^verbatim>\<open>np.random.rand(n, n)\<close> reads numpy's process-wide generator. The generator is a parameter
  of the model: \<open>rng k i j\<close> is the value it yields for entry \<open>(i, j)\<close> of the array returned
  by the \<open>k\<close>-th call made while the problem is constructed. The library documents the values
  as uniform samples of the interval \<open>[0, 1)\<close>.
\<close>

type_synonym generator = "nat \<Rightarrow> nat \<Rightarrow> nat \<Rightarrow> real"

definition rand :: "generator \<Rightarrow> nat \<Rightarrow> nat \<Rightarrow> matrix" where
  "rand rng k n = map (\<lambda>i. map (\<lambda>j. rng k i j) [0..<n]) [0..<n]"

definition unit_interval :: "generator \<Rightarrow> bool" where
  "unit_interval rng = (\<forall>k i j. 0 \<le> rng k i j \<and> rng k i j < 1)"

text \<open>
  \<^verbatim>\<open>a + b\<close> on two \<^verbatim>\<open>np.float64\<close> values (and \<^verbatim>\<open>t += v\<close>, which is \<^verbatim>\<open>t = t + v\<close>): the exact
  sum rounded to a representable value, to the nearest one and to the one with an even
  last digit on a tie. The result depends on the order in which several values are added.
  The rounded addition is a parameter of the model, written \<open>fadd\<close>: every statement below
  holds for whatever function it is, and a statement that needs a property of it says so.
\<close>

type_synonym addition = "real \<Rightarrow> real \<Rightarrow> real"

text \<open>Rounding never turns the sum of two values that are not negative into a negative one.\<close>

definition sign_preserving :: "addition \<Rightarrow> bool" where
  "sign_preserving fadd = (\<forall>a b. 0 \<le> a \<and> 0 \<le> b \<longrightarrow> 0 \<le> fadd a b)"

text \<open>\<^verbatim>\<open>np.arange(n)\<close> for a Python integer \<open>n\<close>: \<open>0, 1, ..., n-1\<close>, empty when \<open>n \<le> 0\<close>.\<close>

definition arange :: "int \<Rightarrow> int list" where
  "arange n = map int [0..<nat n]"

text \<open>
  \<^verbatim>\<open>a != b\<close> on two one-dimensional arrays. Arrays of one length are compared position by
  position; an array of length one is broadcast against the other. For any other pair of
  lengths the shapes do not broadcast and current numpy raises \<^verbatim>\<open>ValueError\<close> (releases
  before 1.25 returned the scalar \<^verbatim>\<open>True\<close> with a deprecation warning instead).
\<close>

definition not_equal :: "int list \<Rightarrow> int list \<Rightarrow> error + bool list" where
  "not_equal a b =
     (if length a = length b then Inr (map2 (\<lambda>u v. u \<noteq> v) a b)
      else if length a = 1 then Inr (map (\<lambda>v. a ! 0 \<noteq> v) b)
      else if length b = 1 then Inr (map (\<lambda>u. u \<noteq> b ! 0) a)
      else Inl ValueError)"

text \<open>\<^verbatim>\<open>np.sum\<close> of a boolean array: the number of \<^verbatim>\<open>True\<close> entries.\<close>

definition np_sum :: "bool list \<Rightarrow> int" where
  "np_sum bs = int (length (filter (\<lambda>b. b) bs))"

text \<open>
  \<^verbatim>\<open>np.column_stack(fits)\<close> on a one-dimensional array: each entry becomes a \<open>1 \<times> 1\<close>
  column and the columns are concatenated, giving one row; with no entry there is nothing
  to concatenate and numpy raises \<^verbatim>\<open>ValueError\<close>.
\<close>

definition column_stack :: "real list \<Rightarrow> error + matrix" where
  "column_stack fits = (if fits = [] then Inl ValueError else Inr [fits])"

section \<open>The class MOTSP\<close>

record MOTSP =
  n_cities :: int
  distances :: "matrix list"

subsection \<open>Construction\<close>

text \<open>
  \<^verbatim>\<open>
  def __init__(self, n_cities, n_obj):
      xl = np.zeros(n_cities)
      xu = (n_cities-1) * np.ones(n_cities)
      self.n_cities = n_cities
      self.distances = []
      for i in range(n_obj):
          d = np.random.rand(n_cities, n_cities)
          d = np.tril(d) + np.tril(d, -1).T
          d[np.diag_indices(n_cities)] = 0
          self.distances.append(d)
      super().__init__(n_var=n_cities, n_obj=n_obj, n_constr=1, xl=xl, xu=xu)
  \<close>
  \<^verbatim>\<open>np.zeros\<close> raises \<^verbatim>\<open>ValueError\<close> on a negative length; no other statement of the body
  checks its arguments. The last statement hands the bounds to the constructor of pymoo's
  base class, which is not part of the notebook; the model ends with the object as the
  statements before it leave it.
\<close>

fun distances_loop :: "generator \<Rightarrow> nat \<Rightarrow> nat list \<Rightarrow> matrix list \<Rightarrow> matrix list" where
  "distances_loop rng n [] ds = ds"
| "distances_loop rng n (i # is) ds =
     (let d = rand rng i n;
          d = matrix_add (tril d 0) (transpose_T (tril d (- 1)));
          d = zero_diagonal n d
      in distances_loop rng n is (ds @ [d]))"

definition init :: "int \<Rightarrow> int \<Rightarrow> generator \<Rightarrow> error + MOTSP" where
  "init ncities nobj rng =
     (if ncities < 0 then Inl ValueError
      else Inr \<lparr>n_cities = ncities,
                distances = distances_loop rng (nat ncities) [0..<nat nobj] []\<rparr>)"

subsection \<open>Path cost\<close>

text \<open>
  \<^verbatim>\<open>
  def total_distance(self, x, d):
      t = 0
      for i in range(1, len(x)):
          t += self.distances[d][x[i-1], x[i]]
      return t
  \<close>
  The accumulator starts as the Python integer \<open>0\<close>; every pass of the loop replaces it by
  the \<^verbatim>\<open>np.float64\<close> sum of its value and the entry read, rounded in that pass.
\<close>

fun total_distance_loop ::
  "addition \<Rightarrow> matrix list \<Rightarrow> int list \<Rightarrow> int \<Rightarrow> nat list \<Rightarrow> real \<Rightarrow> error + real" where
  "total_distance_loop fadd ds x d [] t = Inr t"
| "total_distance_loop fadd ds x d (i # is) t =
     (case list_getitem ds d of
        Inl e \<Rightarrow> Inl e
      | Inr m \<Rightarrow>
          (case array2_getitem m (x ! (i - 1)) (x ! i) of
             Inl e \<Rightarrow> Inl e
           | Inr v \<Rightarrow> total_distance_loop fadd ds x d is (fadd t v)))"

definition total_distance :: "addition \<Rightarrow> MOTSP \<Rightarrow> int list \<Rightarrow> int \<Rightarrow> error + real" where
  "total_distance fadd self x d =
     total_distance_loop fadd (distances self) x d [1..<length x] 0"

subsection \<open>Evaluation\<close>

text \<open>
  \<^verbatim>\<open>
  def _evaluate(self, x, out, *args, **kwargs):
      fits = np.zeros(len(self.distances))
      for i in range(len(self.distances)):
          fits[i] = self.total_distance(x, i)
      c = -np.sum(np.arange(self.n_cities) != np.sort(x))
      out["F"] = np.column_stack(fits)
      out["G"] = np.array([c])
  \<close>
  The method receives three objects by reference and returns nothing; its result is what
  it writes into the dictionary \<open>out\<close>. The model passes the three objects in a record and
  returns them as the call leaves them. No statement writes to an object before the last
  statement that can raise, so an exception leaves all three as they were.
\<close>

datatype ndarray = Float2 matrix | Int1 "int list"

type_synonym dict = "string \<rightharpoonup> ndarray"

record call =
  arg_self :: MOTSP
  arg_x :: "int list"
  arg_out :: dict

fun fits_loop ::
  "addition \<Rightarrow> MOTSP \<Rightarrow> int list \<Rightarrow> nat list \<Rightarrow> real list \<Rightarrow> error + real list" where
  "fits_loop fadd self x [] fits = Inr fits"
| "fits_loop fadd self x (i # is) fits =
     (case total_distance fadd self x (int i) of
        Inl e \<Rightarrow> Inl e
      | Inr t \<Rightarrow> fits_loop fadd self x is (fits[i := t]))"

definition evaluate :: "addition \<Rightarrow> call \<Rightarrow> error + call" where
  "evaluate fadd s =
     (let self = arg_self s; x = arg_x s in
      case fits_loop fadd self x [0..<length (distances self)]
             (replicate (length (distances self)) 0) of
        Inl e \<Rightarrow> Inl e
      | Inr fits \<Rightarrow>
          (case not_equal (arange (n_cities self)) (sort x) of
             Inl e \<Rightarrow> Inl e
           | Inr neq \<Rightarrow>
               (let c = - np_sum neq in
                case column_stack fits of
                  Inl e \<Rightarrow> Inl e
                | Inr F \<Rightarrow>
                    Inr (s\<lparr>arg_out := (arg_out s)(''F'' \<mapsto> Float2 F, ''G'' \<mapsto> Int1 [c])\<rparr>))))"

section \<open>Predicates of the statements\<close>

text \<open>An \<open>n \<times> n\<close> array.\<close>

definition square :: "nat \<Rightarrow> matrix \<Rightarrow> bool" where
  "square n d = (length d = n \<and> (\<forall>r\<in>set d. length r = n))"

definition symmetric :: "matrix \<Rightarrow> bool" where
  "symmetric d = (\<forall>i<length d. \<forall>j<length d. d ! i ! j = d ! j ! i)"

definition zero_self_distance :: "matrix \<Rightarrow> bool" where
  "zero_self_distance d = (\<forall>i<length d. d ! i ! i = 0)"

definition non_negative :: "matrix \<Rightarrow> bool" where
  "non_negative d = (\<forall>r\<in>set d. \<forall>v\<in>set r. 0 \<le> v)"

text \<open>
  The shape every constructed problem has: a city count that is not negative and one
  square array of that size per objective.
\<close>

definition well_formed :: "MOTSP \<Rightarrow> bool" where
  "well_formed p =
     (0 \<le> n_cities p \<and> (\<forall>d\<in>set (distances p). square (nat (n_cities p)) d))"

text \<open>A route whose entries are city indices \<open>0 .. n-1\<close>.\<close>

definition city_indices :: "int \<Rightarrow> int list \<Rightarrow> bool" where
  "city_indices n x = (\<forall>v\<in>set x. 0 \<le> v \<and> v < n)"

text \<open>A route that is a permutation of \<open>0 .. n-1\<close>.\<close>

definition is_permutation :: "int \<Rightarrow> int list \<Rightarrow> bool" where
  "is_permutation n x = (mset x = mset (arange n))"

text \<open>
  The cost of the open path along \<open>x\<close> in the array \<open>d\<close>: the entries
  \<open>d[x[k-1]][x[k]]\<close> for \<open>k = 1 .. len(x)-1\<close>, added to \<open>0\<close> one after the other in the
  order of \<open>k\<close> with the rounded addition.
\<close>

definition open_path_cost :: "addition \<Rightarrow> matrix \<Rightarrow> int list \<Rightarrow> real" where
  "open_path_cost fadd d x =
     foldl fadd 0 (map (\<lambda>k. d ! nat (x ! (k - 1)) ! nat (x ! k)) [1..<length x])"

text \<open>The number of positions at which \<open>sorted(x)\<close> differs from \<open>0, 1, ..., n-1\<close>.\<close>

definition mismatches :: "int \<Rightarrow> int list \<Rightarrow> int" where
  "mismatches n x = int (length (filter (\<lambda>(u, v). u \<noteq> v) (zip (arange n) (sort x))))"

text \<open>
  The array the \<open>k\<close>-th iteration of the constructor's loop appends, in closed form: the
  strict lower triangle of the draw, mirrored across a zero diagonal.
\<close>

definition mirrored :: "generator \<Rightarrow> nat \<Rightarrow> nat \<Rightarrow> matrix" where
  "mirrored rng n k =
     map (\<lambda>i. map (\<lambda>j. if i = j then 0 else if j < i then rng k i j else rng k j i) [0..<n])
       [0..<n]"

text \<open>What a call wrote: the entries \<open>F\<close> and \<open>G\<close> of the dictionary, or the exception.\<close>

definition written :: "error + call \<Rightarrow> error + ndarray option \<times> ndarray option" where
  "written r = map_sum (\<lambda>e. e) (\<lambda>s. (arg_out s ''F'', arg_out s ''G'')) r"

section \<open>The run of the notebook\<close>


section \<open>Samples\<close>

text \<open>
  Two streams of values in \<open>[0, 1)\<close> that the generator can yield. Every value is a power
  of two, and the entry \<open>(i, j)\<close> of a draw differs from the entry \<open>(j, i)\<close>.
\<close>

definition rng_a :: generator where
  "rng_a k i j = 1 / 2 ^ (1 + k + 2 * i + j)"



text \<open>The problem \<^verbatim>\<open>MOTSP(3, 2)\<close> constructed from the first stream, and a call on it.\<close>

definition problem_a :: MOTSP where
  "problem_a = \<lparr>n_cities = 3,
     distances = [[[0, 1/8, 1/32], [1/8, 0, 1/64], [1/32, 1/64, 0]],
                  [[0, 1/16, 1/64], [1/16, 0, 1/128], [1/64, 1/128, 0]]]\<rparr>"

definition call_a :: "int list \<Rightarrow> call" where
  "call_a x = \<lparr>arg_self = problem_a, arg_x = x, arg_out = Map.empty\<rparr>"


text \<open>
  A problem of four cities and one objective on which the rounding shows: along the route
  \<open>[0, 1, 2, 3]\<close> the entries read are \<open>1/2\<close>, \<open>1/2\<close> and \<open>2^-53\<close>.
\<close>

definition problem_r :: MOTSP where
  "problem_r = \<lparr>n_cities = 4,
     distances = [[[0, 1/2, 1/4, 1/4],
                   [1/2, 0, 1/2, 1/4],
                   [1/4, 1/2, 0, 1 / 2 ^ 53],
                   [1/4, 1/4, 1 / 2 ^ 53, 0]]]\<rparr>"

text \<open>
  The \<^verbatim>\<open>np.float64\<close> addition on the operands the samples add. \<open>1 + 2^-53\<close> lies halfway
  between the neighbouring values \<open>1\<close> and \<open>1 + 2^-52\<close> and is rounded to \<open>1\<close>, whose last
  digit is even. Every other sum the samples form (of \<open>0\<close> and a value, of two or three
  powers of two between \<open>2^-7\<close> and \<open>1/2\<close>) is representable and so is exact.
\<close>

definition sample_add :: addition where
  "sample_add a b = (if a = 1 \<and> b = 1 / 2 ^ 53 then 1 else a + b)"

section \<open>Non-domination\<close>

text \<open>
  The notebook builds no fronts itself: \<^verbatim>\<open>minimize\<close> and \<^verbatim>\<open>NSGA2\<close> are imported from pymoo.
  The definitions of this section follow the specification's description of the engine.
\<close>

text \<open>A population member: its objective vector and its constraint score.\<close>

type_synonym member = "real list \<times> real"

text \<open>
  Modelled from the spec: the feasibility test of the engine, which the notebook leaves to
  pymoo. "ConstraintScore: non-positive means feasible, positive means infeasible."
\<close>

definition feasible :: "member \<Rightarrow> bool" where
  "feasible a = (snd a \<le> 0)"

text \<open>
  Modelled from the spec: Pareto dominance on objective vectors, which the notebook leaves
  to pymoo. "Objective values that are all \<open>\<le>\<close> and at least one strictly \<open><\<close>."
\<close>

definition pareto_dominates :: "real list \<Rightarrow> real list \<Rightarrow> bool" where
  "pareto_dominates f g =
     (length f = length g \<and> list_all (\<lambda>(u, v). u \<le> v) (zip f g)
        \<and> list_ex (\<lambda>(u, v). u < v) (zip f g))"

text \<open>
  Modelled from the spec: dominance with feasibility as an extra tier, which the notebook
  leaves to pymoo. "Any feasible individual dominates any infeasible one regardless of
  objective values; among infeasible individuals, lower constraint violation dominates."
\<close>

definition dominates :: "member \<Rightarrow> member \<Rightarrow> bool" where
  "dominates a b =
     (if feasible a \<and> \<not> feasible b then True
      else if \<not> feasible a \<and> feasible b then False
      else if \<not> feasible a \<and> \<not> feasible b then snd a < snd b
      else pareto_dominates (fst a) (fst b))"

text \<open>
  Modelled from the spec: the extraction of the non-dominated set (front 1), which the
  notebook leaves to pymoo. "The subset of a Population that is non-dominated."
\<close>

definition non_dominated :: "member list \<Rightarrow> member list" where
  "non_dominated pop = filter (\<lambda>b. \<not> list_ex (\<lambda>a. dominates a b) pop) pop"

text \<open>A population of five members, one of them infeasible.\<close>

definition population_a :: "member list" where
  "population_a = [([1, 3], 0), ([2, 2], 0), ([2, 3], 0), ([0, 0], 1), ([3, 1], - 1)]"

section \<open>Indexing and the path-cost loop\<close>

lemma normalize_index_in_range:
  "0 \<le> i \<Longrightarrow> i < int n \<Longrightarrow> normalize_index n i = Inr (nat i)"
  by (simp add: normalize_index_def)

lemma normalize_index_Inr: "normalize_index n i = Inr k \<Longrightarrow> k < n"
  by (auto simp: normalize_index_def split: if_splits)

lemma list_getitem_nat: "i < length xs \<Longrightarrow> list_getitem xs (int i) = Inr (xs ! i)"
  by (simp add: list_getitem_def normalize_index_def)

lemma ncols_square: "square n d \<Longrightarrow> ncols d = n"
  by (cases d) (auto simp: square_def ncols_def)

lemma array2_getitem_in_range:
  assumes "square n d" "0 \<le> a" "a < int n" "0 \<le> b" "b < int n"
  shows "array2_getitem d a b = Inr (d ! nat a ! nat b)"
  using assms ncols_square[OF assms(1)]
  by (simp add: array2_getitem_def normalize_index_in_range square_def)

lemma array2_getitem_member:
  assumes "square n d" "array2_getitem d a b = Inr v"
  shows "\<exists>r\<in>set d. v \<in> set r"
proof -
  from assms(2) obtain i j where i: "normalize_index (length d) a = Inr i"
    and j: "normalize_index (ncols d) b = Inr j" and v: "v = d ! i ! j"
    by (auto simp: array2_getitem_def split: sum.splits)
  have "i < length d" using i by (rule normalize_index_Inr)
  moreover have "j < n" using j ncols_square[OF assms(1)] normalize_index_Inr by auto
  ultimately show ?thesis using assms(1) v by (auto simp: square_def intro!: bexI[of _ "d ! i"])
qed

lemma total_distance_loop_Inr:
  assumes "list_getitem ds d = Inr m"
    and "\<forall>i\<in>set is. array2_getitem m (x ! (i - 1)) (x ! i) = Inr (g i)"
  shows "total_distance_loop fadd ds x d is t = Inr (foldl fadd t (map g is))"
  using assms by (induction "is" arbitrary: t) simp_all

lemma total_distance_loop_nonneg:
  assumes "total_distance_loop fadd ds x d is t = Inr r" "0 \<le> t"
    and "\<And>m a b v. list_getitem ds d = Inr m \<Longrightarrow> array2_getitem m a b = Inr v \<Longrightarrow> 0 \<le> v"
    and sp: "sign_preserving fadd"
  shows "0 \<le> r"
  using assms(1-3)
proof (induction "is" arbitrary: t)
  case Nil
  then show ?case by simp
next
  case (Cons i "is")
  from Cons.prems(1) obtain m v where m: "list_getitem ds d = Inr m"
    and v: "array2_getitem m (x ! (i - 1)) (x ! i) = Inr v"
    and rest: "total_distance_loop fadd ds x d is (fadd t v) = Inr r"
    by (auto split: sum.splits)
  have "0 \<le> v" using Cons.prems(3)[OF m v] .
  with Cons.prems(2) sp have "0 \<le> fadd t v" by (simp add: sign_preserving_def)
  from Cons.IH[OF rest this Cons.prems(3)] show ?case by simp
qed

lemma total_distance_in_range:
  assumes wf: "well_formed p" and x: "city_indices (n_cities p) x" and i: "i < length (distances p)"
  shows "total_distance fadd p x (int i) = Inr (open_path_cost fadd (distances p ! i) x)"
proof -
  let ?d = "distances p ! i"
  have sq: "square (nat (n_cities p)) ?d" using wf i by (simp add: well_formed_def)
  have "\<forall>k\<in>set [1..<length x].
          array2_getitem ?d (x ! (k - 1)) (x ! k) = Inr (?d ! nat (x ! (k - 1)) ! nat (x ! k))"
  proof
    fix k assume "k \<in> set [1..<length x]"
    then have "x ! (k - 1) \<in> set x" "x ! k \<in> set x" by auto
    with x have "0 \<le> x ! (k - 1)" "x ! (k - 1) < n_cities p" "0 \<le> x ! k" "x ! k < n_cities p"
      by (auto simp: city_indices_def)
    then show "array2_getitem ?d (x ! (k - 1)) (x ! k) = Inr (?d ! nat (x ! (k - 1)) ! nat (x ! k))"
      using array2_getitem_in_range[OF sq] by simp
  qed
  from total_distance_loop_Inr[OF list_getitem_nat[OF i] this, of fadd 0]
  show ?thesis
    by (simp add: total_distance_def open_path_cost_def)
qed

section \<open>The loop over the objectives and the comparison with the sorted route\<close>

lemma fits_loop_Inr:
  assumes "\<forall>i\<in>set is. total_distance fadd p x (int i) = Inr (f i)"
  shows "fits_loop fadd p x is fits = Inr (fold (\<lambda>i fs. fs[i := f i]) is fits)"
  using assms by (induction "is" arbitrary: fits) simp_all

lemma fold_update_length: "length (fold (\<lambda>i fs. fs[i := f i]) is fits) = length fits"
  by (induction "is" arbitrary: fits) simp_all

lemma fold_update_nth:
  "j < length fits \<Longrightarrow>
   fold (\<lambda>i fs. fs[i := f i]) is fits ! j = (if j \<in> set is then f j else fits ! j)"
  by (induction "is" arbitrary: fits) (auto simp: nth_list_update)

lemma fold_update_all:
  "fold (\<lambda>i fs. fs[i := f i]) [0..<n] (replicate n z) = map f [0..<n]"
  by (rule nth_equalityI) (simp_all add: fold_update_length fold_update_nth)

lemma fits_loop_length:
  "fits_loop fadd p x is fits = Inr r \<Longrightarrow> length r = length fits"
  by (induction "is" arbitrary: fits) (auto split: sum.splits)

lemma fits_loop_nonneg:
  assumes "fits_loop fadd p x is fits = Inr r" "\<forall>v\<in>set fits. 0 \<le> v"
    and "\<And>i t. total_distance fadd p x (int i) = Inr t \<Longrightarrow> 0 \<le> t"
  shows "\<forall>v\<in>set r. 0 \<le> v"
  using assms
proof (induction "is" arbitrary: fits)
  case Nil
  then show ?case by simp
next
  case (Cons i "is")
  from Cons.prems(1) obtain t where t: "total_distance fadd p x (int i) = Inr t"
    and rest: "fits_loop fadd p x is (fits[i := t]) = Inr r"
    by (auto split: sum.splits)
  have "0 \<le> t" using Cons.prems(3)[OF t] .
  with Cons.prems(2) have "\<forall>v\<in>set (fits[i := t]). 0 \<le> v"
    using set_update_subset_insert[of fits i t] by auto
  from Cons.IH[OF rest this Cons.prems(3)] show ?case .
qed

lemma arange_length: "length (arange n) = nat n"
  by (simp add: arange_def)

lemma arange_sorted: "sorted (arange n)"
  by (simp add: arange_def sorted_map sorted_wrt_iff_nth_less)

lemma sort_eq_arange_iff: "sort x = arange n \<longleftrightarrow> is_permutation n x"
proof
  assume "sort x = arange n"
  then have "mset (sort x) = mset (arange n)" by simp
  then show "is_permutation n x" by (simp add: is_permutation_def)
next
  assume "is_permutation n x"
  then have "mset (arange n) = mset x" by (simp add: is_permutation_def)
  then show "sort x = arange n" using arange_sorted by (rule properties_for_sort)
qed

lemma is_permutation_length: "is_permutation n x \<Longrightarrow> length x = nat n"
  by (metis arange_length is_permutation_def size_mset)

lemma is_permutation_city_indices: "is_permutation n x \<Longrightarrow> city_indices n x"
proof -
  assume "is_permutation n x"
  then have "set x = set (arange n)" unfolding is_permutation_def by (rule mset_eq_setD)
  then show ?thesis by (auto simp: city_indices_def arange_def)
qed

lemma not_equal_same_length:
  "length a = length b \<Longrightarrow> not_equal a b = Inr (map2 (\<lambda>u v. u \<noteq> v) a b)"
  by (simp add: not_equal_def)

lemma np_sum_map2: "np_sum (map2 (\<lambda>u v. u \<noteq> v) a b) = int (length (filter (\<lambda>(u, v). u \<noteq> v) (zip a b)))"
  by (simp add: np_sum_def filter_map comp_def case_prod_unfold)

lemma np_sum_nonneg: "0 \<le> np_sum bs"
  by (simp add: np_sum_def)

lemma mismatches_zero_iff:
  assumes "length x = nat n"
  shows "mismatches n x = 0 \<longleftrightarrow> sort x = arange n"
proof -
  have len: "length (arange n) = length (sort x)" using assms by (simp add: arange_length)
  have "mismatches n x = 0 \<longleftrightarrow> (\<forall>(u, v)\<in>set (zip (arange n) (sort x)). u = v)"
    by (auto simp: mismatches_def filter_empty_conv)
  also have "\<dots> \<longleftrightarrow> arange n = sort x" using len by (simp add: list_eq_iff_zip_eq)
  finally show ?thesis by auto
qed

section \<open>What an evaluation writes\<close>

lemma evaluate_Inr:
  assumes "evaluate fadd s = Inr s'"
  obtains fits neq where
    "fits_loop fadd (arg_self s) (arg_x s) [0..<length (distances (arg_self s))]
       (replicate (length (distances (arg_self s))) 0) = Inr fits"
    "not_equal (arange (n_cities (arg_self s))) (sort (arg_x s)) = Inr neq"
    "fits \<noteq> []"
    "s' = s\<lparr>arg_out := (arg_out s)(''F'' \<mapsto> Float2 [fits], ''G'' \<mapsto> Int1 [- np_sum neq])\<rparr>"
  using assms
  by (auto simp: evaluate_def Let_def column_stack_def split: sum.splits if_splits)

lemma evaluate_in_range:
  assumes wf: "well_formed (arg_self s)"
    and x: "city_indices (n_cities (arg_self s)) (arg_x s)"
    and len: "length (arg_x s) = nat (n_cities (arg_self s))"
    and obj: "distances (arg_self s) \<noteq> []"
  shows "evaluate fadd s =
    Inr (s\<lparr>arg_out := (arg_out s)
      (''F'' \<mapsto> Float2 [map (\<lambda>i. open_path_cost fadd (distances (arg_self s) ! i) (arg_x s))
                           [0..<length (distances (arg_self s))]],
       ''G'' \<mapsto> Int1 [- mismatches (n_cities (arg_self s)) (arg_x s)])\<rparr>)"
proof -
  let ?p = "arg_self s" and ?x = "arg_x s"
  let ?M = "length (distances ?p)"
  let ?f = "\<lambda>i. open_path_cost fadd (distances ?p ! i) ?x"
  have "\<forall>i\<in>set [0..<?M]. total_distance fadd ?p ?x (int i) = Inr (?f i)"
    using total_distance_in_range[OF wf x] by simp
  then have "fits_loop fadd ?p ?x [0..<?M] (replicate ?M 0)
      = Inr (fold (\<lambda>i fs. fs[i := ?f i]) [0..<?M] (replicate ?M 0))"
    by (rule fits_loop_Inr)
  then have fits: "fits_loop fadd ?p ?x [0..<?M] (replicate ?M 0) = Inr (map ?f [0..<?M])"
    by (simp only: fold_update_all)
  have neq: "not_equal (arange (n_cities ?p)) (sort ?x)
      = Inr (map2 (\<lambda>u v. u \<noteq> v) (arange (n_cities ?p)) (sort ?x))"
    using len by (simp add: not_equal_same_length arange_length)
  have ne: "map ?f [0..<?M] \<noteq> []" using obj by simp
  show ?thesis
    unfolding evaluate_def Let_def fits neq column_stack_def mismatches_def
    using ne by (simp add: np_sum_map2)
qed

lemma evaluate_G_nonpositive:
  assumes "evaluate fadd s = Inr s'"
  shows "\<exists>c. arg_out s' ''G'' = Some (Int1 [c]) \<and> c \<le> 0"
  using assms by (auto elim!: evaluate_Inr simp: np_sum_nonneg)

lemma evaluate_G_same_length:
  assumes "evaluate fadd s = Inr s'" "length (arg_x s) = nat (n_cities (arg_self s))"
  shows "arg_out s' ''G'' = Some (Int1 [- mismatches (n_cities (arg_self s)) (arg_x s)])"
proof -
  from assms(1) obtain fits neq where
    neq: "not_equal (arange (n_cities (arg_self s))) (sort (arg_x s)) = Inr neq" and
    s': "s' = s\<lparr>arg_out := (arg_out s)(''F'' \<mapsto> Float2 [fits], ''G'' \<mapsto> Int1 [- np_sum neq])\<rparr>"
    by (rule evaluate_Inr)
  have "neq = map2 (\<lambda>u v. u \<noteq> v) (arange (n_cities (arg_self s))) (sort (arg_x s))"
    using neq assms(2) by (simp add: not_equal_same_length arange_length)
  then show ?thesis using s' by (simp add: np_sum_map2 mismatches_def)
qed

section \<open>The constructed arrays in closed form\<close>

lemma ncols_rand: "ncols (rand rng k n) = n"
  by (cases n) (simp_all add: ncols_def rand_def upt_conv_Cons del: upt_Suc)

lemma length_rand: "length (rand rng k n) = n"
  by (simp add: rand_def)

lemma nth_rand: "i < n \<Longrightarrow> j < n \<Longrightarrow> rand rng k n ! i ! j = rng k i j"
  by (simp add: rand_def)

lemma length_tril: "length (tril m k) = length m"
  by (simp add: tril_def)

lemma ncols_tril: "ncols (tril m k) = (if m = [] then 0 else ncols m)"
  by (cases m) (simp_all add: ncols_def tril_def upt_conv_Cons del: upt_Suc)

lemma symmetrise_rand:
  "zero_diagonal n (matrix_add (tril (rand rng k n) 0) (transpose_T (tril (rand rng k n) (- 1))))
     = mirrored rng n k"
proof (cases "n = 0")
  case True
  then show ?thesis
    by (simp add: zero_diagonal_def matrix_add_def tril_def transpose_T_def rand_def mirrored_def)
next
  case False
  let ?d = "rand rng k n"
  have len: "length ?d = n" by (simp add: rand_def)
  have nc: "ncols ?d = n" by (rule ncols_rand)
  have ne: "?d \<noteq> []" using False len by auto
  have lo: "tril ?d 0 = map (\<lambda>i. map (\<lambda>j. if j \<le> i then rng k i j else 0) [0..<n]) [0..<n]"
    by (simp add: tril_def len nc nth_rand)
  have up: "transpose_T (tril ?d (- 1))
      = map (\<lambda>i. map (\<lambda>j. if i < j then rng k j i else 0) [0..<n]) [0..<n]"
    by (simp add: transpose_T_def length_tril ncols_tril ne len nc)
      (auto simp: tril_def len nc nth_rand)
  have add: "matrix_add (tril ?d 0) (transpose_T (tril ?d (- 1)))
      = map (\<lambda>i. map (\<lambda>j. if j \<le> i then rng k i j else rng k j i) [0..<n]) [0..<n]"
    unfolding lo up matrix_add_def
    by (auto intro!: nth_equalityI)
  show ?thesis
    unfolding add zero_diagonal_def mirrored_def
    by (auto intro!: nth_equalityI simp: nth_list_update)
qed

lemma distances_loop_closed:
  "distances_loop rng n is ds = ds @ map (mirrored rng n) is"
  by (induction "is" arbitrary: ds) (simp_all add: Let_def symmetrise_rand)

lemma init_closed:
  "init n m rng =
     (if n < 0 then Inl ValueError
      else Inr \<lparr>n_cities = n, distances = map (mirrored rng (nat n)) [0..<nat m]\<rparr>)"
  by (simp add: init_def distances_loop_closed)

lemma mirrored_square: "square n (mirrored rng n k)"
  by (auto simp: square_def mirrored_def)

lemma mirrored_symmetric: "symmetric (mirrored rng n k)"
  by (auto simp: symmetric_def mirrored_def)

lemma mirrored_zero_self_distance: "zero_self_distance (mirrored rng n k)"
  by (simp add: zero_self_distance_def mirrored_def)

lemma mirrored_non_negative: "\<forall>k i j. 0 \<le> rng k i j \<Longrightarrow> non_negative (mirrored rng n k)"
  by (auto simp: non_negative_def mirrored_def)


lemma init_well_formed: "init n m rng = Inr p \<Longrightarrow> well_formed p"
  by (auto simp: init_closed well_formed_def mirrored_square split: if_splits)

lemma init_problem_a: "init 3 2 rng_a = Inr problem_a"
  by code_simp

lemma written_Inr:
  "written r = Inr (f, g) \<Longrightarrow> \<exists>s'. r = Inr s' \<and> arg_out s' ''F'' = f \<and> arg_out s' ''G'' = g"
  by (cases r) (auto simp: written_def)

lemma total_distance_non_negative:
  assumes wf: "well_formed p" and nn: "\<forall>d\<in>set (distances p). non_negative d"
    and sp: "sign_preserving fadd"
    and td: "total_distance fadd p x i = Inr t"
  shows "0 \<le> t"
proof -
  have entry: "0 \<le> v"
    if m: "list_getitem (distances p) i = Inr m" and v: "array2_getitem m a b = Inr v"
    for m a b v
  proof -
    from m have "m \<in> set (distances p)"
      by (auto simp: list_getitem_def split: sum.splits dest: normalize_index_Inr)
    with wf nn have sq: "square (nat (n_cities p)) m" and pos: "non_negative m"
      by (auto simp: well_formed_def)
    from array2_getitem_member[OF sq v] pos show ?thesis by (auto simp: non_negative_def)
  qed
  from td have "total_distance_loop fadd (distances p) x i [1..<length x] 0 = Inr t"
    by (simp add: total_distance_def)
  then show ?thesis
    by (rule total_distance_loop_nonneg) (simp, (rule entry; assumption), rule sp)
qed

section \<open>The objectives are open-path costs\<close>

text \<open>With an addition that does not round, the cost is the sum of the entries.\<close>

lemma open_path_cost_exact:
  "open_path_cost (+) d x = (\<Sum>k = 1..<length x. d ! nat (x ! (k - 1)) ! nat (x ! k))"
proof -
  have "foldl (+) a ys = a + sum_list ys" for a :: real and ys
    by (induction ys arbitrary: a) (simp_all add: add.assoc)
  then show ?thesis
    by (simp add: open_path_cost_def interv_sum_list_conv_sum_set_nat)
qed

text \<open>
  C3. For a problem with square distance arrays and a route of length \<open>n_cities\<close> whose
  entries are city indices, \<^verbatim>\<open>total_distance\<close> returns, for objective \<open>i\<close>, the sum of
  \<open>distances[i][x[k-1]][x[k]]\<close> for \<open>k = 1 .. len(x)-1\<close>, and \<^verbatim>\<open>_evaluate\<close> returns and writes
  that sum as entry \<open>i\<close> of the row \<open>F\<close>. The sum is the \<^verbatim>\<open>np.float64\<close> sum: the terms are
  added to \<open>0\<close> one after the other in the order of \<open>k\<close>, each addition rounded. It has no
  term for the edge from the last city back to the first.
\<close>
theorem objective_is_open_path_cost:
  assumes "well_formed p"
    and "city_indices (n_cities p) x"
    and "length x = nat (n_cities p)"
    and "i < length (distances p)"
  shows "total_distance fadd p x (int i)
           = Inr (foldl fadd 0
                    (map (\<lambda>k. distances p ! i ! nat (x ! (k - 1)) ! nat (x ! k)) [1..<length x]))
       \<and> (\<exists>s' row. evaluate fadd \<lparr>arg_self = p, arg_x = x, arg_out = out\<rparr> = Inr s'
             \<and> arg_out s' ''F'' = Some (Float2 [row])
             \<and> row ! i = foldl fadd 0
                    (map (\<lambda>k. distances p ! i ! nat (x ! (k - 1)) ! nat (x ! k)) [1..<length x]))"
proof -
  let ?s = "\<lparr>arg_self = p, arg_x = x, arg_out = out\<rparr>"
  have td: "total_distance fadd p x (int i) = Inr (open_path_cost fadd (distances p ! i) x)"
    using assms(1,2,4) by (rule total_distance_in_range)
  have ne: "distances (arg_self ?s) \<noteq> []" using assms(4) by auto
  have "evaluate fadd ?s = Inr (?s\<lparr>arg_out := (arg_out ?s)
      (''F'' \<mapsto> Float2 [map (\<lambda>i. open_path_cost fadd (distances (arg_self ?s) ! i) (arg_x ?s))
                           [0..<length (distances (arg_self ?s))]],
       ''G'' \<mapsto> Int1 [- mismatches (n_cities (arg_self ?s)) (arg_x ?s)])\<rparr>)"
    using assms(1,2,3) ne by (intro evaluate_in_range) simp_all
  then have "\<exists>s' row. evaluate fadd ?s = Inr s' \<and> arg_out s' ''F'' = Some (Float2 [row])
      \<and> row ! i = open_path_cost fadd (distances p ! i) x"
    using assms(4) by simp
  with td show ?thesis by (simp add: open_path_cost_def)
qed

text \<open>
  On the four-city sample the three entries along \<open>[0, 1, 2, 3]\<close> add up to \<open>1\<close>: the last
  addition, of \<open>2^-53\<close> to \<open>1\<close>, is rounded away. On the three-city sample the route
  \<open>[2, 0, 1]\<close> costs \<open>1/32 + 1/8\<close> in the first array; the entry \<open>1/64\<close> of the edge back
  from city 1 to city 2 is not part of it.
\<close>

theorem objective_is_open_path_cost_witness:
  "well_formed problem_r \<and> city_indices 4 [0, 1, 2, 3]
     \<and> total_distance sample_add problem_r [0, 1, 2, 3] 0 = Inr 1
     \<and> (\<exists>s' row. evaluate sample_add \<lparr>arg_self = problem_r, arg_x = [0, 1, 2, 3],
                                        arg_out = Map.empty\<rparr> = Inr s'
           \<and> arg_out s' ''F'' = Some (Float2 [row]) \<and> row ! 0 = 1)
     \<and> total_distance sample_add problem_a [2, 0, 1] 0 = Inr (5/32)"
proof -
  have wf: "well_formed problem_r" by code_simp
  have n: "n_cities problem_r = 4" by code_simp
  have ci: "city_indices (n_cities problem_r) [0, 1, 2, 3]" by code_simp
  have len: "length [0, 1, 2, 3 :: int] = nat (n_cities problem_r)" by code_simp
  have i: "0 < length (distances problem_r)" by code_simp
  have v: "foldl sample_add 0 (map (\<lambda>k. distances problem_r ! 0
      ! nat ([0, 1, 2, 3] ! (k - 1)) ! nat ([0, 1, 2, 3] ! k)) [1..<length [0, 1, 2, 3 :: int]]) = 1"
    by code_simp
  have wf': "well_formed problem_a" by code_simp
  have ci': "city_indices (n_cities problem_a) [2, 0, 1]" by code_simp
  have len': "length [2, 0, 1 :: int] = nat (n_cities problem_a)" by code_simp
  have i': "0 < length (distances problem_a)" by code_simp
  have v': "foldl sample_add 0 (map (\<lambda>k. distances problem_a ! 0
      ! nat ([2, 0, 1] ! (k - 1)) ! nat ([2, 0, 1] ! k)) [1..<length [2, 0, 1 :: int]]) = 5/32"
    by code_simp
  note t = objective_is_open_path_cost[OF wf ci len i, of sample_add Map.empty, unfolded v]
  note t' = objective_is_open_path_cost[OF wf' ci' len' i', of sample_add Map.empty, unfolded v']
  have "total_distance sample_add problem_a [2, 0, 1] 0 = Inr (5/32)"
    using t' by simp
  with t wf ci show ?thesis unfolding n by simp
qed

section \<open>The constraint value\<close>

text \<open>
  C4. For a route of length \<open>n_cities\<close>, whenever \<^verbatim>\<open>_evaluate\<close> returns, the constraint value
  it wrote is zero if and only if the route is a permutation of \<open>0 .. n_cities-1\<close>; being
  such a permutation is the same as sorting to \<open>0, 1, ..., n_cities-1\<close>; and on a problem
  with square arrays and at least one objective, \<^verbatim>\<open>_evaluate\<close> does return on every
  permutation.
\<close>
theorem constraint_zero_iff_permutation:
  assumes "length x = nat (n_cities p)"
  shows "(\<forall>s'. evaluate fadd \<lparr>arg_self = p, arg_x = x, arg_out = out\<rparr> = Inr s' \<longrightarrow>
            (arg_out s' ''G'' = Some (Int1 [0]) \<longleftrightarrow> is_permutation (n_cities p) x))
       \<and> (is_permutation (n_cities p) x \<longleftrightarrow> sort x = arange (n_cities p))
       \<and> (well_formed p \<and> distances p \<noteq> [] \<and> is_permutation (n_cities p) x \<longrightarrow>
            (\<exists>s'. evaluate fadd \<lparr>arg_self = p, arg_x = x, arg_out = out\<rparr> = Inr s'))"
proof (intro conjI allI impI)
  fix s' assume "evaluate fadd \<lparr>arg_self = p, arg_x = x, arg_out = out\<rparr> = Inr s'"
  then have "arg_out s' ''G'' = Some (Int1 [- mismatches (n_cities p) x])"
    using assms evaluate_G_same_length by fastforce
  then show "arg_out s' ''G'' = Some (Int1 [0]) \<longleftrightarrow> is_permutation (n_cities p) x"
    using mismatches_zero_iff[OF assms] sort_eq_arange_iff[of x "n_cities p"] by auto
next
  show "is_permutation (n_cities p) x \<longleftrightarrow> sort x = arange (n_cities p)"
    by (simp add: sort_eq_arange_iff)
next
  assume a: "well_formed p \<and> distances p \<noteq> [] \<and> is_permutation (n_cities p) x"
  let ?s = "\<lparr>arg_self = p, arg_x = x, arg_out = out\<rparr>"
  have "evaluate fadd ?s = Inr (?s\<lparr>arg_out := (arg_out ?s)
      (''F'' \<mapsto> Float2 [map (\<lambda>i. open_path_cost fadd (distances (arg_self ?s) ! i) (arg_x ?s))
                           [0..<length (distances (arg_self ?s))]],
       ''G'' \<mapsto> Int1 [- mismatches (n_cities (arg_self ?s)) (arg_x ?s)])\<rparr>)"
    using a assms is_permutation_city_indices by (intro evaluate_in_range) simp_all
  then show "\<exists>s'. evaluate fadd ?s = Inr s'" by blast
qed

text \<open>
  On the three-city problem the permutation \<open>[2, 0, 1]\<close> is evaluated with constraint value
  zero, and the route \<open>[1, 1, 0]\<close>, which is not a permutation, with a value that is not zero.
\<close>

theorem constraint_zero_iff_permutation_witness:
  "length [2, 0, 1 :: int] = nat (n_cities problem_a)
   \<and> is_permutation 3 [2, 0, 1]
   \<and> (\<exists>s'. evaluate sample_add (call_a [2, 0, 1]) = Inr s' \<and> arg_out s' ''G'' = Some (Int1 [0]))
   \<and> \<not> is_permutation 3 [1, 1, 0]
   \<and> (\<exists>s'. evaluate sample_add (call_a [1, 1, 0]) = Inr s' \<and> arg_out s' ''G'' \<noteq> Some (Int1 [0]))"
proof -
  have n: "n_cities problem_a = 3" by code_simp
  have len1: "length [2, 0, 1 :: int] = nat (n_cities problem_a)" by code_simp
  have len2: "length [1, 1, 0 :: int] = nat (n_cities problem_a)" by code_simp
  have wf: "well_formed problem_a" by code_simp
  have ne: "distances problem_a \<noteq> []" by code_simp
  have srt1: "sort [2, 0, 1 :: int] = arange 3" by code_simp
  have srt2: "sort [1, 1, 0 :: int] \<noteq> arange 3" by code_simp
  have ret2: "written (evaluate sample_add (call_a [1, 1, 0])) = Inr (Some (Float2 [[1/8, 1/16]]), Some (Int1 [- 1]))"
    by code_simp
  note t1 = constraint_zero_iff_permutation[OF len1, where fadd = sample_add
      and out = Map.empty, unfolded n]
  note t2 = constraint_zero_iff_permutation[OF len2, where fadd = sample_add
      and out = Map.empty, unfolded n]
  have p1: "is_permutation 3 [2, 0, 1]" using t1 srt1 by blast
  have p2: "\<not> is_permutation 3 [1, 1, 0]" using t2 srt2 by blast
  from t1 p1 wf ne obtain s1 where s1: "evaluate sample_add (call_a [2, 0, 1]) = Inr s1"
    unfolding call_a_def by blast
  with t1 p1 have g1: "arg_out s1 ''G'' = Some (Int1 [0])" unfolding call_a_def by blast
  from written_Inr[OF ret2] obtain s2 where s2: "evaluate sample_add (call_a [1, 1, 0]) = Inr s2" by blast
  with t2 p2 have g2: "arg_out s2 ''G'' \<noteq> Some (Int1 [0])" unfolding call_a_def by blast
  from len1 p1 s1 g1 p2 s2 g2 show ?thesis by blast
qed

text \<open>
  C5. Whatever the route, when \<^verbatim>\<open>_evaluate\<close> returns, the constraint value it wrote is the
  negation of a count and so is less than or equal to zero: under the convention that a
  non-positive value means feasible, the value never marks a route as infeasible.
\<close>
theorem constraint_never_positive:
  assumes "evaluate fadd \<lparr>arg_self = p, arg_x = x, arg_out = out\<rparr> = Inr s'"
  shows "\<exists>c. arg_out s' ''G'' = Some (Int1 [c]) \<and> c \<le> 0"
  using assms by (rule evaluate_G_nonpositive)

text \<open>The malformed route \<open>[1, 1, 0]\<close> is evaluated and its constraint value is not positive.\<close>

theorem constraint_never_positive_witness:
  "\<not> is_permutation (n_cities problem_a) [1, 1, 0]
   \<and> (\<exists>s'. evaluate sample_add (call_a [1, 1, 0]) = Inr s'
         \<and> (\<exists>c. arg_out s' ''G'' = Some (Int1 [c]) \<and> c \<le> 0))"
proof -
  have p: "\<not> is_permutation (n_cities problem_a) [1, 1, 0]"
    unfolding sort_eq_arange_iff[symmetric] by code_simp
  have "written (evaluate sample_add (call_a [1, 1, 0])) = Inr (Some (Float2 [[1/8, 1/16]]), Some (Int1 [- 1]))"
    by code_simp
  then obtain s' where s': "evaluate sample_add (call_a [1, 1, 0]) = Inr s'" by (auto dest: written_Inr)
  then have "\<exists>c. arg_out s' ''G'' = Some (Int1 [c]) \<and> c \<le> 0"
    unfolding call_a_def by (rule constraint_never_positive)
  with p s' show ?thesis by blast
qed

text \<open>
  C1. The specification states that a route that is not a permutation gets a strictly
  positive constraint value. On the problem \<^verbatim>\<open>MOTSP(3, 2)\<close> built from the first sample stream, the
  route \<open>[1, 1, 0]\<close> visits city 1 twice and city 2 never; \<^verbatim>\<open>_evaluate\<close> writes the
  objectives \<open>1/8\<close> and \<open>1/16\<close> and the constraint value \<open>-1\<close>. The source comments the
  line with "constraints return negative if met": the value is negative here, where the
  constraint is not met.
\<close>
theorem malformed_route_scores_negative:
  "init 3 2 rng_a = Inr problem_a
   \<and> written (evaluate sample_add (call_a [1, 1, 0])) = Inr (Some (Float2 [[1/8, 1/16]]), Some (Int1 [- 1]))"
  by code_simp

section \<open>The constructed distance arrays\<close>

lemma init_Inr:
  assumes "init n m rng = Inr p"
  shows "0 \<le> n" and "p = \<lparr>n_cities = n, distances = map (mirrored rng (nat n)) [0..<nat m]\<rparr>"
  using assms by (auto simp: init_closed split: if_splits)

lemma evaluate_frame:
  assumes "evaluate fadd s = Inr s'"
  shows "arg_self s' = arg_self s" and "arg_x s' = arg_x s"
    and "k \<noteq> ''F'' \<Longrightarrow> k \<noteq> ''G'' \<Longrightarrow> arg_out s' k = arg_out s k"
  using assms by (auto elim!: evaluate_Inr)

lemma written_evaluate_out:
  "written (evaluate fadd (s\<lparr>arg_out := out\<rparr>)) = written (evaluate fadd s)"
  by (simp add: evaluate_def written_def Let_def split: sum.splits)

text \<open>
  C6. Every problem the constructor returns for city count \<open>n\<close> and objective count \<open>m\<close>
  holds \<open>m\<close> arrays, each \<open>n \<times> n\<close>, symmetric and with a zero diagonal; and an evaluation
  that returns leaves the problem, and so its arrays, as it found them.
  (\<^verbatim>\<open>total_distance\<close> only reads its arguments and returns a number.)
\<close>
theorem constructed_matrices_symmetric:
  assumes "init n m rng = Inr p"
  shows "n_cities p = n \<and> length (distances p) = nat m
       \<and> (\<forall>d\<in>set (distances p). square (nat n) d \<and> symmetric d \<and> zero_self_distance d)
       \<and> (\<forall>x out s'. evaluate fadd \<lparr>arg_self = p, arg_x = x, arg_out = out\<rparr> = Inr s' \<longrightarrow>
            arg_self s' = p)"
proof -
  note p = init_Inr(2)[OF assms]
  have "n_cities p = n" "length (distances p) = nat m" by (simp_all add: p)
  moreover have "\<forall>d\<in>set (distances p). square (nat n) d \<and> symmetric d \<and> zero_self_distance d"
    by (auto simp: p mirrored_square mirrored_symmetric mirrored_zero_self_distance)
  moreover have "\<forall>x out s'. evaluate fadd \<lparr>arg_self = p, arg_x = x, arg_out = out\<rparr> = Inr s' \<longrightarrow>
      arg_self s' = p"
    by (auto dest: evaluate_frame(1))
  ultimately show ?thesis by blast
qed

text \<open>The two arrays of \<^verbatim>\<open>MOTSP(3, 2)\<close> built from the first sample stream.\<close>

theorem constructed_matrices_symmetric_witness:
  "init 3 2 rng_a = Inr problem_a
   \<and> length (distances problem_a) = 2
   \<and> symmetric (distances problem_a ! 0) \<and> zero_self_distance (distances problem_a ! 0)
   \<and> symmetric (distances problem_a ! 1) \<and> zero_self_distance (distances problem_a ! 1)
   \<and> (\<exists>s'. evaluate sample_add (call_a [2, 0, 1]) = Inr s' \<and> arg_self s' = problem_a)"
proof -
  have i: "init 3 2 rng_a = Inr problem_a" by code_simp
  note t = constructed_matrices_symmetric[OF i]
  have len: "length (distances problem_a) = 2" using t by simp
  then have m: "distances problem_a ! 0 \<in> set (distances problem_a)"
    "distances problem_a ! 1 \<in> set (distances problem_a)" by simp_all
  have "written (evaluate sample_add (call_a [2, 0, 1]))
      = Inr (Some (Float2 [[5/32, 5/64]]), Some (Int1 [0]))"
    by code_simp
  then obtain s' where s': "evaluate sample_add (call_a [2, 0, 1]) = Inr s'" by (auto dest: written_Inr)
  then have "arg_self s' = problem_a" using t unfolding call_a_def by blast
  with i len m t s' show ?thesis by blast
qed

section \<open>The objective vector\<close>

text \<open>
  C7. On a problem constructed from generator values in \<open>[0, 1)\<close>, whenever \<^verbatim>\<open>_evaluate\<close>
  returns, the row \<open>F\<close> it wrote has one entry per distance array (as many as the objective
  count given to the constructor) and every entry is greater than or equal to zero. Of the
  rounded addition this uses that the sum of two values that are not negative is not
  negative, which holds of \<^verbatim>\<open>np.float64\<close> addition and of the addition of the reals.
\<close>
theorem objective_vector_length_and_sign:
  assumes "unit_interval rng"
    and "sign_preserving fadd"
    and "init n m rng = Inr p"
    and "evaluate fadd \<lparr>arg_self = p, arg_x = x, arg_out = out\<rparr> = Inr s'"
  shows "\<exists>row. arg_out s' ''F'' = Some (Float2 [row])
           \<and> length row = length (distances p) \<and> length (distances p) = nat m
           \<and> (\<forall>v\<in>set row. 0 \<le> v)"
proof -
  let ?M = "length (distances p)"
  from assms(4) obtain fits where
    fits: "fits_loop fadd p x [0..<?M] (replicate ?M 0) = Inr fits" and
    F: "arg_out s' ''F'' = Some (Float2 [fits])"
    by (auto elim!: evaluate_Inr)
  have wf: "well_formed p" using assms(3) by (rule init_well_formed)
  have nn: "\<forall>d\<in>set (distances p). non_negative d"
    using assms(1) by (auto simp: init_Inr(2)[OF assms(3)] unit_interval_def mirrored_non_negative)
  have "length fits = ?M" using fits_loop_length[OF fits] by simp
  moreover have "length (distances p) = nat m" by (simp add: init_Inr(2)[OF assms(3)])
  moreover have "\<forall>v\<in>set fits. 0 \<le> v"
    using fits by (rule fits_loop_nonneg) (simp, rule total_distance_non_negative[OF wf nn assms(2)])
  ultimately show ?thesis using F by blast
qed

lemma unit_interval_rng_a: "unit_interval rng_a"
proof -
  have "(1::real) < 2 * 2 ^ n" for n :: nat
  proof -
    have "(1::real) \<le> 2 ^ n" by simp
    then show ?thesis by linarith
  qed
  then show ?thesis by (simp add: unit_interval_def rng_a_def)
qed

lemma sign_preserving_sample_add: "sign_preserving sample_add"
  by (simp add: sign_preserving_def sample_add_def)

text \<open>
  The route \<open>[2, 0, -1]\<close> reads the arrays through a negative index; its two objectives
  are not negative either.
\<close>

theorem objective_vector_length_and_sign_witness:
  "unit_interval rng_a \<and> sign_preserving sample_add \<and> init 3 2 rng_a = Inr problem_a
   \<and> (\<exists>s' row. evaluate sample_add (call_a [2, 0, - 1]) = Inr s' \<and> arg_out s' ''F'' = Some (Float2 [row])
         \<and> length row = 2 \<and> 0 \<le> row ! 0 \<and> 0 \<le> row ! 1)"
proof -
  have i: "init 3 2 rng_a = Inr problem_a" by code_simp
  have "written (evaluate sample_add (call_a [2, 0, - 1]))
      = Inr (Some (Float2 [[1/16, 1/32]]), Some (Int1 [- 2]))"
    by code_simp
  then obtain s' where s': "evaluate sample_add (call_a [2, 0, - 1]) = Inr s'" by (auto dest: written_Inr)
  from objective_vector_length_and_sign[OF unit_interval_rng_a sign_preserving_sample_add i
      s'[unfolded call_a_def]]
  obtain row where "arg_out s' ''F'' = Some (Float2 [row])" "length row = 2" "\<forall>v\<in>set row. 0 \<le> v"
    by auto
  then have "arg_out s' ''F'' = Some (Float2 [row]) \<and> length row = 2 \<and> 0 \<le> row ! 0 \<and> 0 \<le> row ! 1"
    by simp
  with unit_interval_rng_a sign_preserving_sample_add i s' show ?thesis by blast
qed

section \<open>Evaluation as a function of problem and route\<close>

text \<open>
  C8. What \<^verbatim>\<open>_evaluate\<close> writes (or the exception it raises) depends on the problem and the
  route only, not on what the dictionary held before. When it returns, the problem and the
  route are unchanged, the dictionary is unchanged at every key other than \<open>F\<close> and \<open>G\<close>,
  and evaluating again gives the same result. The method keeps no evaluation counter.
\<close>
theorem evaluation_is_pure:
  "written (evaluate fadd \<lparr>arg_self = p, arg_x = x, arg_out = out\<rparr>)
     = written (evaluate fadd \<lparr>arg_self = p, arg_x = x, arg_out = out'\<rparr>)
   \<and> (\<forall>s'. evaluate fadd \<lparr>arg_self = p, arg_x = x, arg_out = out\<rparr> = Inr s' \<longrightarrow>
          arg_self s' = p \<and> arg_x s' = x
        \<and> (\<forall>k. k \<noteq> ''F'' \<and> k \<noteq> ''G'' \<longrightarrow> arg_out s' k = out k)
        \<and> evaluate fadd s' = Inr s')"
proof (intro conjI allI impI)
  show "written (evaluate fadd \<lparr>arg_self = p, arg_x = x, arg_out = out\<rparr>)
     = written (evaluate fadd \<lparr>arg_self = p, arg_x = x, arg_out = out'\<rparr>)"
    using written_evaluate_out[where s = "\<lparr>arg_self = p, arg_x = x, arg_out = out\<rparr>" and out = out']
    by simp
next
  fix s' assume e: "evaluate fadd \<lparr>arg_self = p, arg_x = x, arg_out = out\<rparr> = Inr s'"
  show "arg_self s' = p" "arg_x s' = x" using evaluate_frame(1,2)[OF e] by simp_all
  show "arg_out s' k = out k" if "k \<noteq> ''F'' \<and> k \<noteq> ''G''" for k
    using evaluate_frame(3)[OF e, of k] that by simp
  from e show "evaluate fadd s' = Inr s'"
    by (auto simp: evaluate_def Let_def fun_upd_idem_iff split: sum.splits)
qed

text \<open>A call whose dictionary already holds the keys \<open>F\<close> and \<open>H\<close>.\<close>

theorem evaluation_is_pure_witness:
  "written (evaluate sample_add (call_a [2, 0, 1]))
     = written (evaluate sample_add \<lparr>arg_self = problem_a, arg_x = [2, 0, 1],
                           arg_out = [''F'' \<mapsto> Int1 [7], ''H'' \<mapsto> Int1 [8]]\<rparr>)
   \<and> (\<exists>s'. evaluate sample_add \<lparr>arg_self = problem_a, arg_x = [2, 0, 1],
                        arg_out = [''F'' \<mapsto> Int1 [7], ''H'' \<mapsto> Int1 [8]]\<rparr> = Inr s'
         \<and> arg_self s' = problem_a \<and> arg_x s' = [2, 0, 1]
         \<and> arg_out s' ''H'' = Some (Int1 [8]) \<and> evaluate sample_add s' = Inr s')"
proof -
  define out where "out = [''F'' \<mapsto> Int1 [7], ''H'' \<mapsto> Int1 [8]]"
  define s where "s = \<lparr>arg_self = problem_a, arg_x = [2, 0, 1], arg_out = out\<rparr>"
  note t = evaluation_is_pure[where fadd = sample_add and p = problem_a and x = "[2, 0, 1]"
      and out = out and out' = Map.empty, folded s_def call_a_def]
  have "written (evaluate sample_add s) = Inr (Some (Float2 [[5/32, 5/64]]), Some (Int1 [0]))"
    unfolding s_def out_def by code_simp
  then obtain s' where s': "evaluate sample_add s = Inr s'" by (auto dest: written_Inr)
  have eq: "written (evaluate sample_add s) = written (evaluate sample_add (call_a [2, 0, 1]))"
    using t by (rule conjunct1)
  have fr: "arg_self s' = problem_a \<and> arg_x s' = [2, 0, 1]
        \<and> (\<forall>k. k \<noteq> ''F'' \<and> k \<noteq> ''G'' \<longrightarrow> arg_out s' k = out k)
        \<and> evaluate sample_add s' = Inr s'"
    using conjunct2[OF t] s' by (elim allE[of _ s'] impE) assumption+
  then have "arg_out s' ''H'' = out ''H''" by simp
  then have h: "arg_out s' ''H'' = Some (Int1 [8])" by (simp add: out_def)
  have "\<exists>s'. evaluate sample_add s = Inr s' \<and> arg_self s' = problem_a \<and> arg_x s' = [2, 0, 1]
         \<and> arg_out s' ''H'' = Some (Int1 [8]) \<and> evaluate sample_add s' = Inr s'"
    using s' fr h by blast
  with eq show ?thesis unfolding s_def out_def by simp
qed

section \<open>Construction and its arguments\<close>

text \<open>
  C9. The specification states that a city count below two is rejected at construction.
  The statements of \<^verbatim>\<open>MOTSP.__init__\<close> accept the city counts one and zero and build the arrays.
\<close>
theorem small_city_count_is_accepted:
  "init 1 1 rng_a = Inr \<lparr>n_cities = 1, distances = [[[0]]]\<rparr>
   \<and> init 0 1 rng_a = Inr \<lparr>n_cities = 0, distances = [[]]\<rparr>"
  by code_simp

text \<open>
  C9, as the constructor behaves: its statements check nothing. For every city count that
  is not negative they build the problem, with that city count and one array per
  objective; only a negative city count fails, with the \<^verbatim>\<open>ValueError\<close> of \<^verbatim>\<open>np.zeros\<close>.
  (\<open>n_offsprings\<close> is an argument of pymoo's \<^verbatim>\<open>NSGA2\<close>; the notebook has no code that
  checks it.)
\<close>

theorem constructor_fails_only_on_negative_count:
  "(0 \<le> n \<longrightarrow> (\<exists>p. init n m rng = Inr p \<and> n_cities p = n \<and> length (distances p) = nat m))
   \<and> (n < 0 \<longrightarrow> init n m rng = Inl ValueError)"
  by (simp add: init_closed)

text \<open>City count one is accepted, city count minus one is not.\<close>

theorem constructor_fails_only_on_negative_count_witness:
  "(\<exists>p. init 1 2 rng_a = Inr p \<and> n_cities p = 1 \<and> length (distances p) = 2)
   \<and> init (- 1) 2 rng_a = Inl ValueError"
  using constructor_fails_only_on_negative_count[of 1 2 rng_a]
    constructor_fails_only_on_negative_count[of "- 1" 2 rng_a]
  by simp

section \<open>The seed and the distance arrays\<close>






section \<open>Idempotence of the non-dominated set\<close>

lemma non_dominated_subset: "set (non_dominated pop) \<subseteq> set pop"
  by (auto simp: non_dominated_def)

lemma non_dominated_member:
  "b \<in> set (non_dominated pop) \<Longrightarrow> a \<in> set pop \<Longrightarrow> \<not> dominates a b"
  by (auto simp: non_dominated_def list_ex_iff)

text \<open>
  C10. Extracting the non-dominated set of an already extracted non-dominated set returns
  it unchanged, and no member of the non-dominated set dominates another.
\<close>

theorem non_dominated_idempotent:
  "non_dominated (non_dominated pop) = non_dominated pop
   \<and> (\<forall>a\<in>set (non_dominated pop). \<forall>b\<in>set (non_dominated pop). \<not> dominates a b)"
proof
  have "filter (\<lambda>b. \<not> list_ex (\<lambda>a. dominates a b) (non_dominated pop)) (non_dominated pop)
      = non_dominated pop"
    using non_dominated_subset[of pop]
    by (intro filter_True) (auto simp: list_ex_iff dest: non_dominated_member)
  then show "non_dominated (non_dominated pop) = non_dominated pop"
    by (simp add: non_dominated_def[of "non_dominated pop"])
next
  show "\<forall>a\<in>set (non_dominated pop). \<forall>b\<in>set (non_dominated pop). \<not> dominates a b"
    using non_dominated_subset[of pop] by (auto dest: non_dominated_member)
qed

text \<open>The sample population keeps three of its five members.\<close>

theorem non_dominated_idempotent_witness:
  "non_dominated population_a = [([1, 3], 0), ([2, 2], 0), ([3, 1], - 1)]
   \<and> non_dominated [([1, 3], 0), ([2, 2], 0), ([3, 1], - 1)] = [([1, 3], 0), ([2, 2], 0), ([3, 1], - 1)]
   \<and> \<not> dominates ([1, 3], 0) ([2, 2], 0) \<and> \<not> dominates ([2, 2], 0) ([1, 3], 0)"
proof -
  have v: "non_dominated population_a = [([1, 3], 0), ([2, 2], 0), ([3, 1], - 1)]"
    by code_simp
  from non_dominated_idempotent[of population_a] show ?thesis unfolding v by simp
qed

end
